theory Spec2Isabelle
  imports Main "HOL-Library.Signed_Division"
begin

section \<open>The image viewer widget of packages/imageviewer/src/widget.ts\<close>

text \<open>
  The class \<open>ImageViewer\<close> keeps five numeric fields, a ready delegate and a DOM node
  built by \<open>Private.createNode\<close>: an outer \<open>div\<close>, an inner \<open>div\<close> whose style carries the
  transform and the filter, and an \<open>img\<close> whose \<open>src\<close> attribute carries the content.
  Methods that mutate the object are functions from the widget to the widget.

  Numbers. The fields have the TypeScript type \<open>number\<close>. The embedding covers the
  integer-valued numbers and represents them by \<open>int\<close>: on them \<open>===\<close> is equality,
  \<open>*\<close> is the product (exact below \<open>2^53\<close> in magnitude) and \<open>%\<close> is the remainder of
  the truncating division, whose sign is the sign of the dividend: \<open>smod\<close> on \<open>int\<close>.
  Fractional values, \<open>NaN\<close> and the infinities are outside the embedding.

  Strings are \<open>string\<close>; a template literal is the concatenation of its pieces.
\<close>

subsection \<open>Number to string\<close>

text \<open>
  A template literal \<open>${n}\<close> converts the number with \<open>Number::toString\<close>: for an integer
  of magnitude below \<open>10^21\<close>, an optional minus sign followed by the decimal digits
  without leading zeros.
\<close>

definition digit_char :: "nat \<Rightarrow> char" where
  "digit_char d =
     (if d = 0 then CHR ''0'' else if d = 1 then CHR ''1'' else if d = 2 then CHR ''2''
      else if d = 3 then CHR ''3'' else if d = 4 then CHR ''4'' else if d = 5 then CHR ''5''
      else if d = 6 then CHR ''6'' else if d = 7 then CHR ''7'' else if d = 8 then CHR ''8''
      else CHR ''9'')"

fun nat_to_string :: "nat \<Rightarrow> string" where
  "nat_to_string n =
     (if n < 10 then [digit_char n] else nat_to_string (n div 10) @ [digit_char (n mod 10)])"

declare nat_to_string.simps [simp del]

definition number_to_string :: "int \<Rightarrow> string" where
  "number_to_string i =
     (if i < 0 then CHR ''-'' # nat_to_string (nat (- i)) else nat_to_string (nat i))"

subsection \<open>The widget\<close>

text \<open>
  \<open>PromiseDelegate\<close> (from the phosphor library) wraps one promise; \<open>resolve\<close> settles it
  when it is still pending and has no effect on a settled promise.
\<close>

datatype 'a promise = Pending | Resolved 'a | Rejected string

definition resolve :: "'a \<Rightarrow> 'a promise \<Rightarrow> 'a promise" where
  "resolve v p = (case p of Pending \<Rightarrow> Resolved v | _ \<Rightarrow> p)"

text \<open>
  The private methods record their invocation in the field \<open>calls\<close>, oldest first, so that
  "no style recomputation" and "no render attempted" are statements about the state.
  \<open>Call_resolve\<close> records the call \<open>this._ready.resolve(void 0)\<close>.
\<close>

datatype call = Call_render | Call_updateStyle | Call_resolve

record widget =
  isDisposed :: bool
  scale :: int
  rotation :: int
  horizontalflip :: int
  verticalflip :: int
  colorinversion :: int
  ready_delegate :: "unit promise"
  img_src :: "string option"
  style_transform :: string
  style_filter :: string
  contentChanged_connected :: bool
  fileChanged_connected :: bool
  calls :: "call list"

text \<open>
  The document context is the external collaborator: its readiness flag, its contents
  model (absent or a mimetype and a format) and the text of \<open>context.model.toString()\<close>.
\<close>

record contents_model =
  mimetype :: string
  format :: string

record doc_context =
  isReady :: bool
  contentsModel :: "contents_model option"
  model_toString :: string

text \<open>
  The state after the synchronous part of the constructor: the field initialisers of
  lines 194 to 199, a fresh node (no \<open>src\<close> attribute, empty style), nothing connected to
  the two change signals yet. The title label and the focus handling are not part of the
  embedding.
\<close>

definition new_widget :: widget where
  "new_widget =
     \<lparr> isDisposed = False, scale = 1, rotation = 0, horizontalflip = 1, verticalflip = 1,
       colorinversion = 0, ready_delegate = Pending, img_src = None,
       style_transform = [], style_filter = [],
       contentChanged_connected = False, fileChanged_connected = False, calls = [] \<rparr>"

subsection \<open>Style recomputation (lines 180 to 192)\<close>

definition transformString :: "widget \<Rightarrow> string" where
  "transformString w =
     ''translate(-50%,-50%) ''
     @ (''scale('' @ number_to_string (scale w * horizontalflip w) @ '',''
          @ number_to_string (scale w * verticalflip w) @ '') '')
     @ (''rotate('' @ number_to_string (rotation w) @ ''deg)'')"

definition filterString :: "widget \<Rightarrow> string" where
  "filterString w = ''invert('' @ number_to_string (colorinversion w) @ '')''"

definition updateStyle :: "widget \<Rightarrow> widget" where
  "updateStyle w =
     w \<lparr> style_transform := transformString w, style_filter := filterString w,
         calls := calls w @ [Call_updateStyle] \<rparr>"

subsection \<open>The five setters (lines 77 to 139)\<close>

definition set_scale :: "int \<Rightarrow> widget \<Rightarrow> widget" where
  "set_scale v w = (if v = scale w then w else updateStyle (w \<lparr> scale := v \<rparr>))"

definition set_rotation :: "int \<Rightarrow> widget \<Rightarrow> widget" where
  "set_rotation v w =
     (if v = rotation w then w else updateStyle (w \<lparr> rotation := v smod 360 \<rparr>))"

definition set_horizontalflip :: "int \<Rightarrow> widget \<Rightarrow> widget" where
  "set_horizontalflip v w =
     (if v = horizontalflip w then w else updateStyle (w \<lparr> horizontalflip := v \<rparr>))"

definition set_verticalflip :: "int \<Rightarrow> widget \<Rightarrow> widget" where
  "set_verticalflip v w =
     (if v = verticalflip w then w else updateStyle (w \<lparr> verticalflip := v \<rparr>))"

definition set_colorinversion :: "int \<Rightarrow> widget \<Rightarrow> widget" where
  "set_colorinversion v w =
     (if v = colorinversion w then w else updateStyle (w \<lparr> colorinversion := v \<rparr>))"

text \<open>A call of one of the setters, and a sequence of such calls, first call first.\<close>

datatype setter =
  Set_scale int | Set_rotation int | Set_horizontalflip int | Set_verticalflip int
  | Set_colorinversion int

fun apply_setter :: "setter \<Rightarrow> widget \<Rightarrow> widget" where
  "apply_setter (Set_scale v) w = set_scale v w"
| "apply_setter (Set_rotation v) w = set_rotation v w"
| "apply_setter (Set_horizontalflip v) w = set_horizontalflip v w"
| "apply_setter (Set_verticalflip v) w = set_verticalflip v w"
| "apply_setter (Set_colorinversion v) w = set_colorinversion v w"

fun run_setters :: "setter list \<Rightarrow> widget \<Rightarrow> widget" where
  "run_setters [] w = w"
| "run_setters (s # ss) w = run_setters ss (apply_setter s w)"

subsection \<open>Rendering and the update request (lines 144 to 149 and 168 to 178)\<close>

definition render :: "doc_context \<Rightarrow> widget \<Rightarrow> widget" where
  "render ctx w =
     (let w1 = w \<lparr> calls := calls w @ [Call_render] \<rparr> in
      case contentsModel ctx of
        None \<Rightarrow> w1
      | Some cm \<Rightarrow>
          w1 \<lparr> img_src :=
                 Some (''data:'' @ mimetype cm @ '';'' @ format cm @ '','' @ model_toString ctx) \<rparr>)"

definition onUpdateRequest :: "doc_context \<Rightarrow> widget \<Rightarrow> widget" where
  "onUpdateRequest ctx w = (if isDisposed w \<or> \<not> isReady ctx then w else render ctx w)"

subsection \<open>The continuation of \<open>context.ready\<close> (lines 48 to 56)\<close>

text \<open>The statements after the disposal guard, lines 52 to 55.\<close>

definition ready_body :: "doc_context \<Rightarrow> widget \<Rightarrow> widget" where
  "ready_body ctx w =
     (let w1 = render ctx w;
          w2 = w1 \<lparr> contentChanged_connected := True \<rparr>;
          w3 = w2 \<lparr> fileChanged_connected := True \<rparr>
      in w3 \<lparr> ready_delegate := resolve () (ready_delegate w3),
              calls := calls w3 @ [Call_resolve] \<rparr>)"

definition ready_continuation :: "doc_context \<Rightarrow> widget \<Rightarrow> widget" where
  "ready_continuation ctx w = (if isDisposed w then w else ready_body ctx w)"


subsection \<open>The widget in its environment\<close>

text \<open>
  Modelled from the spec: tearing the widget down. The base class \<open>Widget\<close> belongs to the
  phosphor library; its \<open>dispose\<close> sets the flag that \<open>isDisposed\<close> reads, and the flag is
  never cleared.
\<close>

definition dispose :: "widget \<Rightarrow> widget" where
  "dispose w = w \<lparr> isDisposed := True \<rparr>"












text \<open>A context holding a PNG in base64, used in the examples.\<close>

definition png_context :: doc_context where
  "png_context =
     \<lparr> isReady = True,
       contentsModel = Some \<lparr> mimetype = ''image/png'', format = ''base64'' \<rparr>,
       model_toString = ''AAAA'' \<rparr>"

section \<open>Properties\<close>

subsection \<open>Rotation\<close>

lemma smod_360_bounds: "- 360 < (v::int) smod 360 \<and> v smod 360 < 360"
proof -
  have a: "0 \<le> v mod 360" "v mod 360 < 360" by simp_all
  have b: "0 \<le> (- v) mod 360" "(- v) mod 360 < 360" by simp_all
  from a b show ?thesis by (simp add: signed_modulo_int_def sgn_if) linarith
qed

lemma smod_360_nonneg: "0 \<le> (v::int) \<Longrightarrow> v smod 360 = v mod 360"
  by (simp add: signed_modulo_int_def sgn_if)

lemma updateStyle_fields [simp]:
  "scale (updateStyle w) = scale w"
  "rotation (updateStyle w) = rotation w"
  "horizontalflip (updateStyle w) = horizontalflip w"
  "verticalflip (updateStyle w) = verticalflip w"
  "colorinversion (updateStyle w) = colorinversion w"
  "isDisposed (updateStyle w) = isDisposed w"
  "ready_delegate (updateStyle w) = ready_delegate w"
  "img_src (updateStyle w) = img_src w"
  by (simp_all add: updateStyle_def)

lemma rotation_apply_setter:
  "- 360 < rotation w \<and> rotation w < 360 \<Longrightarrow>
   - 360 < rotation (apply_setter s w) \<and> rotation (apply_setter s w) < 360"
  using smod_360_bounds
  by (cases s)
     (simp_all add: set_scale_def set_rotation_def set_horizontalflip_def
        set_verticalflip_def set_colorinversion_def)

lemma rotation_run_setters:
  "- 360 < rotation w \<and> rotation w < 360 \<Longrightarrow>
   - 360 < rotation (run_setters ss w) \<and> rotation (run_setters ss w) < 360"
proof (induction ss arbitrary: w)
  case Nil
  then show ?case by simp
next
  case (Cons s ss)
  from Cons.prems have "- 360 < rotation (apply_setter s w) \<and> rotation (apply_setter s w) < 360"
    by (rule rotation_apply_setter)
  then show ?case using Cons.IH by simp
qed

lemma rotation_reachable:
  "- 360 < rotation (run_setters ss new_widget) \<and> rotation (run_setters ss new_widget) < 360"
  by (rule rotation_run_setters) (simp add: new_widget_def)

lemma smod_small: "- 360 < (v::int) \<Longrightarrow> v < 360 \<Longrightarrow> v smod 360 = v"
  by (simp add: signed_modulo_int_def sgn_if)

lemma set_rotation_stored:
  assumes "- 360 < rotation w" and "rotation w < 360"
  shows "rotation (set_rotation x w) = x smod 360"
proof (cases "x = rotation w")
  case True
  with assms have "x smod 360 = x" by (simp add: smod_small)
  with True show ?thesis by (simp add: set_rotation_def)
next
  case False
  then show ?thesis by (simp add: set_rotation_def)
qed

text \<open>
  C1 (as stated): for every integer \<open>x\<close>, after the rotation setter is called with \<open>x\<close> the
  stored rotation is \<open>x mod 360\<close> and lies in \<open>[0, 360)\<close>; \<open>setRotation(-10)\<close> stores 350.
  The claim fails on a fresh widget at \<open>x = -10\<close>: the setter stores \<open>-10 % 360\<close>, which
  is \<open>-10\<close>, not 350, and it is negative.
\<close>

theorem C1_counterexample:
  "rotation (set_rotation (- 10) new_widget) = - 10
   \<and> rotation (set_rotation (- 10) new_widget) \<noteq> (- 10) mod 360
   \<and> \<not> (0 \<le> rotation (set_rotation (- 10) new_widget))"
  by (simp add: set_rotation_def new_widget_def signed_modulo_int_def)

text \<open>
  C1 (amended): after any sequence of setter calls on a fresh widget, calling the rotation
  setter with an integer \<open>x\<close> stores the remainder of the truncating division of \<open>x\<close> by
  360 (the sign of \<open>x\<close>): the stored value lies strictly between \<open>-360\<close> and 360, and for
  \<open>x \<ge> 0\<close> it is \<open>x mod 360\<close> in \<open>[0, 360)\<close>. On a fresh widget \<open>setRotation(400)\<close>
  stores 40 and \<open>setRotation(-10)\<close> stores \<open>-10\<close>.
\<close>

theorem C1_rotation_truncated_remainder:
  "rotation (set_rotation x (run_setters ss new_widget)) = x smod 360
   \<and> - 360 < rotation (set_rotation x (run_setters ss new_widget))
   \<and> rotation (set_rotation x (run_setters ss new_widget)) < 360
   \<and> (0 \<le> x \<longrightarrow>
        rotation (set_rotation x (run_setters ss new_widget)) = x mod 360
        \<and> 0 \<le> rotation (set_rotation x (run_setters ss new_widget)))
   \<and> rotation (set_rotation 400 new_widget) = 40
   \<and> rotation (set_rotation (- 10) new_widget) = - 10"
proof -
  let ?w = "run_setters ss new_widget"
  have r: "- 360 < rotation ?w \<and> rotation ?w < 360" by (rule rotation_reachable)
  then have s: "rotation (set_rotation x ?w) = x smod 360"
    by (simp add: set_rotation_stored)
  have e1: "rotation (set_rotation 400 new_widget) = 40"
    by (simp add: set_rotation_def new_widget_def signed_modulo_int_def)
  have e2: "rotation (set_rotation (- 10) new_widget) = - 10"
    by (simp add: set_rotation_def new_widget_def signed_modulo_int_def)
  show ?thesis using s smod_360_bounds [of x] e1 e2 by (simp add: smod_360_nonneg)
qed

theorem C1_rotation_truncated_remainder_witness:
  "(0::int) \<le> 765
   \<and> rotation (set_rotation 765 (run_setters [Set_scale 2, Set_rotation (- 90)] new_widget)) = 45"
  using C1_rotation_truncated_remainder [of 765 "[Set_scale 2, Set_rotation (- 90)]"]
  by simp


lemmas show_defs = number_to_string_def nat_to_string.simps digit_char_def

text \<open>
  C2 (as stated): the setter normalises before the equality short-circuit, so for every
  \<open>v\<close> congruent modulo 360 to the stored rotation the call is a no-op. The claim fails
  after \<open>setRotation(10)\<close>: \<open>370\<close> and \<open>-350\<close> are congruent to 10, yet \<open>setRotation(370)\<close>
  recomputes the style (the stored value stays 10) and \<open>setRotation(-350)\<close> stores \<open>-350\<close>
  and writes a different transform string.
\<close>

theorem C2_counterexample:
  "rotation (set_rotation 10 new_widget) = 10
   \<and> (370 - rotation (set_rotation 10 new_widget)) mod 360 = 0
   \<and> calls (set_rotation 10 new_widget) = [Call_updateStyle]
   \<and> calls (set_rotation 370 (set_rotation 10 new_widget)) = [Call_updateStyle, Call_updateStyle]
   \<and> (- 350 - rotation (set_rotation 10 new_widget)) mod 360 = 0
   \<and> rotation (set_rotation (- 350) (set_rotation 10 new_widget)) = - 350
   \<and> style_transform (set_rotation 10 new_widget) = ''translate(-50%,-50%) scale(1,1) rotate(10deg)''
   \<and> style_transform (set_rotation (- 350) (set_rotation 10 new_widget))
       = ''translate(-50%,-50%) scale(1,1) rotate(-350deg)''"
  by (simp add: set_rotation_def new_widget_def updateStyle_def transformString_def
        signed_modulo_int_def show_defs)

text \<open>
  C2 (amended): the rotation setter compares its argument with the stored rotation before
  it normalises. Called with \<open>v\<close> equal to the stored rotation it is a no-op: the stored
  value, the style strings and the record of calls are unchanged. Called with any other
  \<open>v\<close>, also one congruent modulo 360 to the stored rotation, it stores \<open>v % 360\<close> and
  recomputes the style once from the new fields.
\<close>

theorem C2_rotation_check_before_normalisation:
  "(v = rotation w \<longrightarrow> set_rotation v w = w)
   \<and> (v \<noteq> rotation w \<longrightarrow>
        rotation (set_rotation v w) = v smod 360
        \<and> calls (set_rotation v w) = calls w @ [Call_updateStyle]
        \<and> style_transform (set_rotation v w) = transformString (w \<lparr> rotation := v smod 360 \<rparr>)
        \<and> style_filter (set_rotation v w) = filterString w)"
  by (simp add: set_rotation_def updateStyle_def filterString_def)

theorem C2_rotation_check_before_normalisation_witness:
  "set_rotation 10 (set_rotation 10 new_widget) = set_rotation 10 new_widget
   \<and> (370::int) \<noteq> rotation (set_rotation 10 new_widget)
   \<and> rotation (set_rotation 370 (set_rotation 10 new_widget)) = 10
   \<and> calls (set_rotation 370 (set_rotation 10 new_widget))
       = calls (set_rotation 10 new_widget) @ [Call_updateStyle]"
proof -
  have r: "rotation (set_rotation 10 new_widget) = 10"
    by (simp add: set_rotation_def new_widget_def signed_modulo_int_def)
  have m: "(370::int) smod 360 = 10"
    by (simp add: signed_modulo_int_def)
  show ?thesis
    using C2_rotation_check_before_normalisation [of 10 "set_rotation 10 new_widget"]
      C2_rotation_check_before_normalisation [of 370 "set_rotation 10 new_widget"] r m
    by simp
qed

subsection \<open>Setters called with the value in effect\<close>



subsection \<open>Style strings\<close>



subsection \<open>Rendering\<close>

text \<open>
  C4: when the context has a contents model with mimetype \<open>m\<close> and format \<open>f\<close> and the
  model text is \<open>c\<close>, a render sets the \<open>src\<close> attribute of the image to exactly
  \<open>data:m;f,c\<close>; for \<open>image/png\<close>, \<open>base64\<close> and \<open>AAAA\<close> it is
  \<open>data:image/png;base64,AAAA\<close>.
\<close>

theorem C4_render_data_uri:
  "(contentsModel ctx = Some cm \<longrightarrow>
      img_src (render ctx w)
        = Some (''data:'' @ mimetype cm @ '';'' @ format cm @ '','' @ model_toString ctx))
   \<and> img_src (render png_context w) = Some ''data:image/png;base64,AAAA''"
  by (simp add: render_def png_context_def)

theorem C4_render_data_uri_witness:
  "contentsModel \<lparr> isReady = True,
       contentsModel = Some \<lparr> mimetype = ''image/gif'', format = ''base64'' \<rparr>,
       model_toString = ''R0lG'' \<rparr> = Some \<lparr> mimetype = ''image/gif'', format = ''base64'' \<rparr>
   \<and> img_src (render \<lparr> isReady = True,
       contentsModel = Some \<lparr> mimetype = ''image/gif'', format = ''base64'' \<rparr>,
       model_toString = ''R0lG'' \<rparr> new_widget) = Some ''data:image/gif;base64,R0lG''"
  using C4_render_data_uri [of "\<lparr> isReady = True,
       contentsModel = Some \<lparr> mimetype = ''image/gif'', format = ''base64'' \<rparr>,
       model_toString = ''R0lG'' \<rparr>" "\<lparr> mimetype = ''image/gif'', format = ''base64'' \<rparr>" new_widget]
  by simp

text \<open>
  C9: when the contents model of the context is absent, a render returns after the check:
  the \<open>src\<close> attribute and every other part of the widget are as before, only the call
  itself is recorded. The function has no error result.
\<close>

theorem C9_render_skipped_without_contents_model:
  "contentsModel ctx = None \<Longrightarrow>
     img_src (render ctx w) = img_src w
     \<and> render ctx w = w \<lparr> calls := calls w @ [Call_render] \<rparr>"
  by (simp add: render_def)

theorem C9_render_skipped_without_contents_model_witness:
  "contentsModel (png_context \<lparr> contentsModel := None \<rparr>) = None
   \<and> img_src (render (png_context \<lparr> contentsModel := None \<rparr>) (render png_context new_widget))
       = Some ''data:image/png;base64,AAAA''"
proof -
  have n: "contentsModel (png_context \<lparr> contentsModel := None \<rparr>) = None" by simp
  have p: "img_src (render png_context new_widget) = Some ''data:image/png;base64,AAAA''"
    by (simp add: render_def png_context_def)
  show ?thesis
    using C9_render_skipped_without_contents_model [OF n, of "render png_context new_widget"] p
    by simp
qed

subsection \<open>Update requests\<close>

text \<open>
  C7: an update request on a disposed widget, or while the context is not ready, returns
  the widget unchanged (no render call is recorded, nothing is written); otherwise it is
  one run of the rendering algorithm.
\<close>

theorem C7_update_request_guard:
  "(isDisposed w \<or> \<not> isReady ctx \<longrightarrow>
      onUpdateRequest ctx w = w \<and> calls (onUpdateRequest ctx w) = calls w)
   \<and> (\<not> isDisposed w \<and> isReady ctx \<longrightarrow> onUpdateRequest ctx w = render ctx w)"
  by (simp add: onUpdateRequest_def)

theorem C7_update_request_guard_witness:
  "isDisposed (dispose new_widget)
   \<and> onUpdateRequest png_context (dispose new_widget) = dispose new_widget
   \<and> \<not> isReady (png_context \<lparr> isReady := False \<rparr>)
   \<and> onUpdateRequest (png_context \<lparr> isReady := False \<rparr>) new_widget = new_widget
   \<and> \<not> isDisposed new_widget \<and> isReady png_context
   \<and> img_src (onUpdateRequest png_context new_widget) = Some ''data:image/png;base64,AAAA''"
proof -
  have d: "isDisposed (dispose new_widget)" by (simp add: dispose_def)
  have r: "\<not> isReady (png_context \<lparr> isReady := False \<rparr>)" by simp
  have l: "\<not> isDisposed new_widget \<and> isReady png_context"
    by (simp add: new_widget_def png_context_def)
  have p: "img_src (render png_context new_widget) = Some ''data:image/png;base64,AAAA''"
    by (simp add: render_def png_context_def)
  show ?thesis
    using C7_update_request_guard [of "dispose new_widget" png_context]
      C7_update_request_guard [of new_widget "png_context \<lparr> isReady := False \<rparr>"]
      C7_update_request_guard [of new_widget png_context] d r l p
    by simp
qed

subsection \<open>The disposal guard of the continuation\<close>

text \<open>
  C3 (as stated): the continuation of \<open>context.ready\<close> does not check the disposed flag
  before it renders, subscribes and resolves; only the update request is guarded. The
  claim fails on a disposed widget: the continuation (line 49) returns it unchanged,
  whereas the statements after the guard would have changed it.
\<close>

theorem C3_counterexample:
  "isDisposed (dispose new_widget)
   \<and> ready_continuation png_context (dispose new_widget) = dispose new_widget
   \<and> ready_body png_context (dispose new_widget) \<noteq> dispose new_widget"
  by (simp add: ready_continuation_def ready_body_def render_def dispose_def
        new_widget_def png_context_def resolve_def)

text \<open>
  C3 (amended): both paths check the disposed flag. On a disposed widget the continuation
  of \<open>context.ready\<close> and the update request return the widget unchanged: nothing is
  rendered, nothing is connected, the ready promise is not resolved. On a widget that is
  not disposed the continuation renders, connects both change signals and resolves the
  ready promise.
\<close>

theorem C3_continuation_checks_disposal:
  "(isDisposed w \<longrightarrow> ready_continuation ctx w = w \<and> onUpdateRequest ctx w = w)
   \<and> (\<not> isDisposed w \<longrightarrow>
        ready_continuation ctx w = ready_body ctx w
        \<and> img_src (ready_continuation ctx w) = img_src (render ctx w)
        \<and> contentChanged_connected (ready_continuation ctx w)
        \<and> fileChanged_connected (ready_continuation ctx w)
        \<and> ready_delegate (ready_continuation ctx w) = resolve () (ready_delegate w)
        \<and> calls (ready_continuation ctx w) = calls w @ [Call_render, Call_resolve])"
  by (simp add: ready_continuation_def ready_body_def onUpdateRequest_def render_def Let_def
        split: option.split)

theorem C3_continuation_checks_disposal_witness:
  "isDisposed (dispose new_widget)
   \<and> ready_continuation png_context (dispose new_widget) = dispose new_widget
   \<and> onUpdateRequest png_context (dispose new_widget) = dispose new_widget
   \<and> \<not> isDisposed new_widget
   \<and> ready_delegate (ready_continuation png_context new_widget) = Resolved ()
   \<and> calls (ready_continuation png_context new_widget) = [Call_render, Call_resolve]"
proof -
  have d: "isDisposed (dispose new_widget)" by (simp add: dispose_def)
  have l: "\<not> isDisposed new_widget \<and> ready_delegate new_widget = Pending \<and> calls new_widget = []"
    by (simp add: new_widget_def)
  from C3_continuation_checks_disposal [of "dispose new_widget" png_context] d
  have g: "ready_continuation png_context (dispose new_widget) = dispose new_widget
    \<and> onUpdateRequest png_context (dispose new_widget) = dispose new_widget"
    by blast
  from C3_continuation_checks_disposal [of new_widget png_context] l
  have r: "ready_delegate (ready_continuation png_context new_widget)
      = resolve () (ready_delegate new_widget)"
    and c: "calls (ready_continuation png_context new_widget)
      = calls new_widget @ [Call_render, Call_resolve]"
    by blast+
  show ?thesis using d l g r c by (simp add: resolve_def)
qed

subsection \<open>Ranges of the flips and the colour inversion\<close>






subsection \<open>The ready promise\<close>
























end
